theory Spec2Isabelle
  imports Main
begin

section \<open>Token cookies of the backend and the address page loader of the frontend\<close>

text \<open>
  The backend module \<^verbatim>\<open>src/lib/utils/cookie_response_token.py\<close> is present as compiled
  bytecode. Its two functions read, instruction by instruction:
  \<^verbatim>\<open>
  def create_response_cookies(user: User, background_task: BackgroundTasks,
                              request: Request) -> t.Union[Response, bool]:
      get_jwt_data_for_encode = schema.IToEncode(user_id=str(user.id))
      access_token, refresh_token = JWTAUTH.jwt_encoder(
          data=get_jwt_data_for_encode.dict())
      if access_token and refresh_token:
          background_task.add_task(auth_token_repo.create, user=user, request=request,
                                   refresh_token=refresh_token, access_token=access_token)
          response = Response(
              content=json.dumps(schema.IToken(refresh_token=refresh_token,
                                               access_token=access_token).dict()),
              status_code=200, media_type='application/json')
          response.set_cookie(key='auth_access_token', value=access_token, secure=True,
                              httponly=config.debug, samesite='lax',
                              max_age=config.access_token_expire_time)
          response.set_cookie(key='auth_refresh_token', value=refresh_token, secure=True,
                              httponly=config.debug, samesite='lax',
                              max_age=config.refresh_token_expire_time)
          return response
      return False

  def update_response_cookies(user: User, background_task: BackgroundTasks,
                              request: Request) -> t.Union[Request, bool]:
      get_jwt_data_for_encode = schema.IToEncode(user_id=str(user.id))
      access_token, refresh_token = JWTAUTH.jwt_encoder(
          data=get_jwt_data_for_encode.dict())
      if access_token and refresh_token:
          background_task.add_task(auth_token_repo.create, user=user, request=request,
                                   refresh_token=refresh_token, access_token=access_token)
          request.cookies.update(key='auth_access_token', value=access_token, secure=True,
              httponly=config.debug, samesite='lax',
              max_age=config.access_token_expire_time,
              expires=datetime.datetime.now() + config.get_access_expires_time())
          request.cookies.update(key='auth_refresh_token', value=refresh_token, secure=True,
              httponly=config.debug, samesite='lax',
              expires=datetime.datetime.now() + config.get_refresh_expires_time(),
              max_age=config.refresh_token_expire_time)
          return request
      return False
  \<close>
  In the file every byte above 127 is unreadable and every carriage return has become a
  line feed. The opcodes of calls and the targets of the two conditional jumps are
  determined by the stack discipline and the length of the code. An operand 10 in
  \<^verbatim>\<open>create_response_cookies\<close> may have been 13: the global \<^verbatim>\<open>Response\<close> (10) and the
  attribute \<^verbatim>\<open>IToken\<close> of \<^verbatim>\<open>schema\<close> (13) are told apart by the names that exist; the
  constants \<^verbatim>\<open>'lax'\<close> (10) and \<^verbatim>\<open>False\<close> (13) by \<^verbatim>\<open>update_response_cookies\<close>,
  where the same statements load them with the operands 6 and 10.

  The modules \<^verbatim>\<open>core.settings\<close>, \<^verbatim>\<open>src.app.auth.schema\<close>,
  \<^verbatim>\<open>src.app.auth.repository\<close>, \<^verbatim>\<open>src.app.user.model\<close> and
  \<^verbatim>\<open>src.lib.utils.security\<close> are imported by the module and are not among the
  sources; what the two functions use of them is a parameter of the model.
\<close>

subsection \<open>Python values\<close>

text \<open>
  A token as the signer hands it back: \<open>None\<close> is Python's \<^verbatim>\<open>None\<close>,
  \<open>Some []\<close> the empty string. Both are falsy.
\<close>

type_synonym token = "string option"

text \<open>A \<^verbatim>\<open>dict\<close> with string keys and string values, in insertion order.\<close>

type_synonym pydict = "(string \<times> string) list"

text \<open>
  The values that \<^verbatim>\<open>update_response_cookies\<close> stores in the cookie mapping of a
  request: strings, booleans, the configured lifetimes and \<^verbatim>\<open>datetime\<close> values (a
  \<^verbatim>\<open>datetime\<close> and a \<^verbatim>\<open>timedelta\<close> are counted in seconds).
\<close>

datatype pyval = PStr string | PBool bool | PInt int | PDatetime int

text \<open>How a call of one of the two functions ends.\<close>

datatype 'a outcome = Raised | Returned_False | Returned 'a

subsection \<open>\<^verbatim>\<open>json.dumps\<close> on a dictionary of strings\<close>

text \<open>
  With the default arguments (\<^verbatim>\<open>ensure_ascii=True\<close>, separators \<^verbatim>\<open>', '\<close> and
  \<^verbatim>\<open>': '\<close>): backslash, double quote and the five short escapes, and
  \<^verbatim>\<open>\u00XX\<close> for every other character outside the range from space to tilde.
\<close>

definition hex_digit :: "nat \<Rightarrow> char" where
  "hex_digit n = ''0123456789abcdef'' ! (n mod 16)"

definition escape_char :: "char \<Rightarrow> string" where
  "escape_char c =
     (if c = CHR 0x5C then [CHR 0x5C, CHR 0x5C]
      else if c = CHR 0x22 then [CHR 0x5C, CHR 0x22]
      else if c = CHR 0x08 then [CHR 0x5C, CHR ''b'']
      else if c = CHR 0x0C then [CHR 0x5C, CHR ''f'']
      else if c = CHR 0x0A then [CHR 0x5C, CHR ''n'']
      else if c = CHR 0x0D then [CHR 0x5C, CHR ''r'']
      else if c = CHR 0x09 then [CHR 0x5C, CHR ''t'']
      else if (of_char c :: nat) < 32 \<or> 126 < (of_char c :: nat) then
        [CHR 0x5C, CHR ''u'', CHR ''0'', CHR ''0'',
         hex_digit (of_char c div 16), hex_digit (of_char c mod 16)]
      else [c])"

definition json_string :: "string \<Rightarrow> string" where
  "json_string s = [CHR 0x22] @ concat (map escape_char s) @ [CHR 0x22]"

fun json_items :: "pydict \<Rightarrow> string" where
  "json_items [] = []"
| "json_items [(k, v)] = json_string k @ '': '' @ json_string v"
| "json_items ((k, v) # kvs) = json_string k @ '': '' @ json_string v @ '', '' @ json_items kvs"

definition json_dumps :: "pydict \<Rightarrow> string" where
  "json_dumps d = ''{'' @ json_items d @ ''}''"

subsection \<open>Configuration and collaborators\<close>

text \<open>
  The attributes and methods of \<^verbatim>\<open>core.settings.config\<close> that the module reads.
  The two \<^verbatim>\<open>get_..._expires_time()\<close> methods take no argument and return a
  \<^verbatim>\<open>timedelta\<close>.
\<close>

record Config =
  debug :: bool
  access_token_expire_time :: int
  refresh_token_expire_time :: int
  get_access_expires_time :: int
  get_refresh_expires_time :: int

text \<open>
  What the module imports from the rest of the backend, for a user type \<open>'u\<close>:
  \<^item> \<open>str_id user\<close> is \<^verbatim>\<open>str(user.id)\<close>;
  \<^item> \<open>IToEncode_dict s\<close> is \<^verbatim>\<open>schema.IToEncode(user_id=s).dict()\<close>;
  \<^item> \<open>jwt_encoder d\<close> is \<^verbatim>\<open>JWTAUTH.jwt_encoder(data=d)\<close>: \<open>None\<close> when the call
    raises, otherwise the pair that the module unpacks into
    \<^verbatim>\<open>access_token, refresh_token\<close>;
  \<^item> \<open>IToken_dict r a\<close> is
    \<^verbatim>\<open>schema.IToken(refresh_token=r, access_token=a).dict()\<close>.
\<close>

record 'u Env =
  config :: Config
  str_id :: "'u \<Rightarrow> string"
  IToEncode_dict :: "string \<Rightarrow> pydict"
  jwt_encoder :: "pydict \<Rightarrow> (token \<times> token) option"
  IToken_dict :: "string \<Rightarrow> string \<Rightarrow> pydict"

subsection \<open>Requests, responses, background tasks\<close>

text \<open>
  A \<^verbatim>\<open>Request\<close> object is passed by reference: the background task keeps the reference
  it was scheduled with, and \<^verbatim>\<open>update_response_cookies\<close> mutates the object behind it
  and returns the same reference. \<open>cookies\<close> is the dictionary \<^verbatim>\<open>request.cookies\<close>;
  the record's extension stands for every other field of the object.
\<close>

type_synonym ref = nat

record Request =
  cookies :: "string \<rightharpoonup> pyval"

text \<open>
  One \<^verbatim>\<open>Set-Cookie\<close> header as \<^verbatim>\<open>Response.set_cookie\<close> builds it from its
  keyword arguments; \<open>c_expires\<close> is \<open>None\<close> when the argument is not passed.
\<close>

record Cookie =
  c_key :: string
  c_value :: string
  c_max_age :: "int option"
  c_expires :: "int option"
  c_secure :: bool
  c_httponly :: bool
  c_samesite :: string

text \<open>
  A \<^verbatim>\<open>Response\<close>: the three constructor arguments the module passes, and the
  \<^verbatim>\<open>Set-Cookie\<close> headers in the order they were appended.
\<close>

record Response =
  content :: string
  status_code :: int
  media_type :: string
  set_cookies :: "Cookie list"

text \<open>
  A task queued on \<^verbatim>\<open>background_task\<close>: the only function the module schedules is
  \<^verbatim>\<open>auth_token_repo.create\<close>, with the keyword arguments \<^verbatim>\<open>user\<close>,
  \<^verbatim>\<open>request\<close>, \<^verbatim>\<open>refresh_token\<close> and \<^verbatim>\<open>access_token\<close>, in this order.
\<close>

datatype 'u task = Create_task 'u ref string string

text \<open>
  The mutable objects a call can touch: the queue of the \<^verbatim>\<open>BackgroundTasks\<close> object
  and the \<^verbatim>\<open>Request\<close> objects.
\<close>

record ('u, 'x) World =
  tasks :: "'u task list"
  requests :: "ref \<Rightarrow> 'x Request_scheme"

definition add_task :: "'u task \<Rightarrow> ('u, 'x) World \<Rightarrow> ('u, 'x) World" where
  "add_task t w = w\<lparr>tasks := tasks w @ [t]\<rparr>"

text \<open>
  Modelled from the spec: the integer constant that \<^verbatim>\<open>create_response_cookies\<close> passes as
  \<^verbatim>\<open>status_code\<close>. Its low byte is unreadable in the bytecode file (a value from 128 to
  255, the three higher bytes are zero); the specification gives status 200.
\<close>

definition status_ok :: int where
  "status_ok = 200"

definition new_Response :: "string \<Rightarrow> int \<Rightarrow> string \<Rightarrow> Response" where
  "new_Response c s m = \<lparr>content = c, status_code = s, media_type = m, set_cookies = []\<rparr>"

definition set_cookie :: "string \<Rightarrow> string \<Rightarrow> bool \<Rightarrow> bool \<Rightarrow> string \<Rightarrow> int \<Rightarrow> Response \<Rightarrow> Response" where
  "set_cookie k v sec ho ss ma resp =
     resp\<lparr>set_cookies := set_cookies resp @
       [\<lparr>c_key = k, c_value = v, c_max_age = Some ma, c_expires = None,
         c_secure = sec, c_httponly = ho, c_samesite = ss\<rparr>]\<rparr>"

text \<open>\<^verbatim>\<open>d.update(**kwargs)\<close>: each keyword becomes a key of the dictionary, in order.\<close>

fun dict_update :: "(string \<rightharpoonup> pyval) \<Rightarrow> (string \<times> pyval) list \<Rightarrow> (string \<rightharpoonup> pyval)" where
  "dict_update d [] = d"
| "dict_update d ((k, v) # kvs) = dict_update (d(k \<mapsto> v)) kvs"

definition cookies_update :: "ref \<Rightarrow> (string \<times> pyval) list \<Rightarrow> ('u, 'x) World \<Rightarrow> ('u, 'x) World" where
  "cookies_update q kvs w =
     w\<lparr>requests := (requests w)(q := (requests w q)\<lparr>cookies := dict_update (cookies (requests w q)) kvs\<rparr>)\<rparr>"

subsection \<open>The two functions\<close>

text \<open>
  The test \<^verbatim>\<open>if access_token and refresh_token\<close>: the two strings when both tokens
  are truthy.
\<close>

fun both_truthy :: "token \<Rightarrow> token \<Rightarrow> (string \<times> string) option" where
  "both_truthy (Some a) (Some r) = (if a \<noteq> [] \<and> r \<noteq> [] then Some (a, r) else None)"
| "both_truthy _ _ = None"

definition create_response_cookies ::
  "'u Env \<Rightarrow> 'u \<Rightarrow> ref \<Rightarrow> ('u, 'x) World \<Rightarrow> ('u, 'x) World \<times> Response outcome" where
  "create_response_cookies env user request w =
     (case jwt_encoder env (IToEncode_dict env (str_id env user)) of
        None \<Rightarrow> (w, Raised)
      | Some (access_token, refresh_token) \<Rightarrow>
          (case both_truthy access_token refresh_token of
             None \<Rightarrow> (w, Returned_False)
           | Some (a, r) \<Rightarrow>
               (let w1 = add_task (Create_task user request r a) w;
                    response = new_Response (json_dumps (IToken_dict env r a)) status_ok
                                 ''application/json'';
                    response = set_cookie ''auth_access_token'' a True (debug (config env))
                                 ''lax'' (access_token_expire_time (config env)) response;
                    response = set_cookie ''auth_refresh_token'' r True (debug (config env))
                                 ''lax'' (refresh_token_expire_time (config env)) response
                in (w1, Returned response))))"

text \<open>
  \<open>now1\<close> and \<open>now2\<close> are the readings of the two successive calls of
  \<^verbatim>\<open>datetime.datetime.now()\<close>.
\<close>

definition update_response_cookies ::
  "'u Env \<Rightarrow> int \<Rightarrow> int \<Rightarrow> 'u \<Rightarrow> ref \<Rightarrow> ('u, 'x) World \<Rightarrow> ('u, 'x) World \<times> ref outcome" where
  "update_response_cookies env now1 now2 user request w =
     (case jwt_encoder env (IToEncode_dict env (str_id env user)) of
        None \<Rightarrow> (w, Raised)
      | Some (access_token, refresh_token) \<Rightarrow>
          (case both_truthy access_token refresh_token of
             None \<Rightarrow> (w, Returned_False)
           | Some (a, r) \<Rightarrow>
               (let w1 = add_task (Create_task user request r a) w;
                    w2 = cookies_update request
                           [(''key'', PStr ''auth_access_token''),
                            (''value'', PStr a),
                            (''secure'', PBool True),
                            (''httponly'', PBool (debug (config env))),
                            (''samesite'', PStr ''lax''),
                            (''max_age'', PInt (access_token_expire_time (config env))),
                            (''expires'', PDatetime (now1 + get_access_expires_time (config env)))]
                           w1;
                    w3 = cookies_update request
                           [(''key'', PStr ''auth_refresh_token''),
                            (''value'', PStr r),
                            (''secure'', PBool True),
                            (''httponly'', PBool (debug (config env))),
                            (''samesite'', PStr ''lax''),
                            (''expires'', PDatetime (now2 + get_refresh_expires_time (config env))),
                            (''max_age'', PInt (refresh_token_expire_time (config env)))]
                           w2
                in (w3, Returned request))))"

subsection \<open>The page loader\<close>

text \<open>
  \<^verbatim>\<open>
  export const load: PageServerLoad = async ({ fetch }) => {
      return { addressList: get_addressList(fetch) };
  };
  \<close>
  \<^verbatim>\<open>get_addressList\<close> is imported from \<^verbatim>\<open>$root/lib/utils/page/address\<close>, which is not
  among the sources: it is a parameter. The function is \<^verbatim>\<open>async\<close>; the model gives the
  object its promise resolves with.
\<close>

record 'f RequestEvent =
  fetch :: 'f

definition load :: "('f \<Rightarrow> 'a) \<Rightarrow> 'f RequestEvent \<Rightarrow> (string \<rightharpoonup> 'a)" where
  "load get_addressList event = [''addressList'' \<mapsto> get_addressList (fetch event)]"

subsection \<open>A concrete deployment\<close>

text \<open>
  The example of the specification: access lifetime 900 seconds, refresh lifetime 604800
  seconds, the user with id 42, outside debug mode. Users are represented by their id;
  the signer returns the pair \<^verbatim>\<open>('tokA', 'tokR')\<close>. \<open>example_IToken_dict\<close> is an
  \<^verbatim>\<open>IToken\<close> whose fields are the two keyword arguments that the module constructs it
  with.
\<close>

definition example_config :: Config where
  "example_config =
     \<lparr>debug = False, access_token_expire_time = 900, refresh_token_expire_time = 604800,
      get_access_expires_time = 900, get_refresh_expires_time = 604800\<rparr>"

definition example_str_id :: "string \<Rightarrow> string" where
  "example_str_id u = u"

definition example_IToEncode_dict :: "string \<Rightarrow> pydict" where
  "example_IToEncode_dict s = [(''user_id'', s)]"

definition example_jwt_encoder :: "pydict \<Rightarrow> (token \<times> token) option" where
  "example_jwt_encoder d = Some (Some ''tokA'', Some ''tokR'')"

definition example_IToken_dict :: "string \<Rightarrow> string \<Rightarrow> pydict" where
  "example_IToken_dict r a = [(''refresh_token'', r), (''access_token'', a)]"

definition example_env :: "string Env" where
  "example_env =
     \<lparr>config = example_config, str_id = example_str_id,
      IToEncode_dict = example_IToEncode_dict, jwt_encoder = example_jwt_encoder,
      IToken_dict = example_IToken_dict\<rparr>"

text \<open>The same deployment with a signer that hands back an empty refresh token.\<close>

definition empty_refresh_encoder :: "pydict \<Rightarrow> (token \<times> token) option" where
  "empty_refresh_encoder d = Some (Some ''tokA'', Some [])"

definition failing_env :: "string Env" where
  "failing_env = example_env\<lparr>jwt_encoder := empty_refresh_encoder\<rparr>"

text \<open>No task is queued, and no request carries a cookie.\<close>

definition example_requests :: "ref \<Rightarrow> Request" where
  "example_requests q = \<lparr>cookies = Map.empty\<rparr>"

definition example_world :: "(string, unit) World" where
  "example_world = \<lparr>tasks = [], requests = example_requests\<rparr>"

definition example_scheduled :: "(string, unit) World" where
  "example_scheduled = \<lparr>tasks = [Create_task ''42'' 0 ''tokR'' ''tokA''], requests = example_requests\<rparr>"

definition example_response :: Response where
  "example_response =
     \<lparr>content = json_dumps [(''refresh_token'', ''tokR''), (''access_token'', ''tokA'')],
      status_code = 200,
      media_type = ''application/json'',
      set_cookies =
        [\<lparr>c_key = ''auth_access_token'', c_value = ''tokA'', c_max_age = Some 900,
          c_expires = None, c_secure = True, c_httponly = False, c_samesite = ''lax''\<rparr>,
         \<lparr>c_key = ''auth_refresh_token'', c_value = ''tokR'', c_max_age = Some 604800,
          c_expires = None, c_secure = True, c_httponly = False, c_samesite = ''lax''\<rparr>]\<rparr>"

section \<open>Properties\<close>

subsection \<open>The guard and the two paths\<close>

lemma both_truthy_Some:
  "both_truthy x y = Some (a, r) \<longleftrightarrow> x = Some a \<and> y = Some r \<and> a \<noteq> [] \<and> r \<noteq> []"
  by (cases "(x, y)" rule: both_truthy.cases) auto

lemma both_truthy_None:
  "both_truthy x y = None \<longleftrightarrow> x = None \<or> x = Some [] \<or> y = None \<or> y = Some []"
  by (cases "(x, y)" rule: both_truthy.cases) auto

lemma create_success:
  assumes "jwt_encoder env (IToEncode_dict env (str_id env user)) = Some (Some a, Some r)"
    and "a \<noteq> []" and "r \<noteq> []"
  shows "create_response_cookies env user request w =
     (add_task (Create_task user request r a) w,
      Returned
        (set_cookie ''auth_refresh_token'' r True (debug (config env)) ''lax''
           (refresh_token_expire_time (config env))
           (set_cookie ''auth_access_token'' a True (debug (config env)) ''lax''
              (access_token_expire_time (config env))
              (new_Response (json_dumps (IToken_dict env r a)) status_ok ''application/json''))))"
  using assms by (simp add: create_response_cookies_def)

lemma create_returned:
  assumes "create_response_cookies env user request w = (w', Returned resp)"
  obtains a r where "jwt_encoder env (IToEncode_dict env (str_id env user)) = Some (Some a, Some r)"
    and "a \<noteq> []" and "r \<noteq> []"
  using assms
  by (auto simp: create_response_cookies_def both_truthy_Some split: option.splits prod.splits)

lemma update_success:
  assumes "jwt_encoder env (IToEncode_dict env (str_id env user)) = Some (Some a, Some r)"
    and "a \<noteq> []" and "r \<noteq> []"
  shows "update_response_cookies env now1 now2 user request w =
     (cookies_update request
        [(''key'', PStr ''auth_refresh_token''), (''value'', PStr r), (''secure'', PBool True),
         (''httponly'', PBool (debug (config env))), (''samesite'', PStr ''lax''),
         (''expires'', PDatetime (now2 + get_refresh_expires_time (config env))),
         (''max_age'', PInt (refresh_token_expire_time (config env)))]
        (cookies_update request
           [(''key'', PStr ''auth_access_token''), (''value'', PStr a), (''secure'', PBool True),
            (''httponly'', PBool (debug (config env))), (''samesite'', PStr ''lax''),
            (''max_age'', PInt (access_token_expire_time (config env))),
            (''expires'', PDatetime (now1 + get_access_expires_time (config env)))]
           (add_task (Create_task user request r a) w)),
      Returned request)"
  using assms by (simp add: update_response_cookies_def)

lemma update_returned:
  assumes "update_response_cookies env now1 now2 user request w = (w', Returned q)"
  obtains a r where "jwt_encoder env (IToEncode_dict env (str_id env user)) = Some (Some a, Some r)"
    and "a \<noteq> []" and "r \<noteq> []"
  using assms
  by (auto simp: update_response_cookies_def both_truthy_Some split: option.splits prod.splits)

lemma failure_paths:
  assumes "jwt_encoder env (IToEncode_dict env (str_id env user)) = Some (x, y)"
    and "x = None \<or> x = Some [] \<or> y = None \<or> y = Some []"
  shows "create_response_cookies env user request w = (w, Returned_False)"
    and "update_response_cookies env now1 now2 user request w = (w, Returned_False)"
  using assms both_truthy_None [of x y]
  by (simp_all add: create_response_cookies_def update_response_cookies_def)

lemma tasks_cookies_update: "tasks (cookies_update q kvs w) = tasks w"
  by (simp add: cookies_update_def)

lemma tasks_add_task: "tasks (add_task t w) = tasks w @ [t]"
  by (simp add: add_task_def)

lemma set_cookies_created:
  "set_cookies (set_cookie k2 v2 s2 h2 ss2 m2 (set_cookie k1 v1 s1 h1 ss1 m1 (new_Response c s m))) =
     [\<lparr>c_key = k1, c_value = v1, c_max_age = Some m1, c_expires = None,
       c_secure = s1, c_httponly = h1, c_samesite = ss1\<rparr>,
      \<lparr>c_key = k2, c_value = v2, c_max_age = Some m2, c_expires = None,
       c_secure = s2, c_httponly = h2, c_samesite = ss2\<rparr>]"
  by (simp add: set_cookie_def new_Response_def)

lemma body_created:
  "content (set_cookie k2 v2 s2 h2 ss2 m2 (set_cookie k1 v1 s1 h1 ss1 m1 (new_Response c s m))) = c"
  "status_code (set_cookie k2 v2 s2 h2 ss2 m2 (set_cookie k1 v1 s1 h1 ss1 m1 (new_Response c s m))) = s"
  "media_type (set_cookie k2 v2 s2 h2 ss2 m2 (set_cookie k1 v1 s1 h1 ss1 m1 (new_Response c s m))) = m"
  by (simp_all add: set_cookie_def new_Response_def)

lemma example_encoder:
  "jwt_encoder example_env (IToEncode_dict example_env (str_id example_env u)) =
     Some (Some ''tokA'', Some ''tokR'')"
  by (simp add: example_env_def example_jwt_encoder_def)

lemma failing_encoder:
  "jwt_encoder failing_env (IToEncode_dict failing_env (str_id failing_env u)) =
     Some (Some ''tokA'', Some [])"
  by (simp add: failing_env_def example_env_def empty_refresh_encoder_def)

lemma example_create:
  "create_response_cookies example_env ''42'' 0 example_world =
     (example_scheduled, Returned example_response)"
proof -
  have "create_response_cookies example_env ''42'' 0 example_world =
     (add_task (Create_task ''42'' 0 ''tokR'' ''tokA'') example_world,
      Returned
        (set_cookie ''auth_refresh_token'' ''tokR'' True (debug (config example_env)) ''lax''
           (refresh_token_expire_time (config example_env))
           (set_cookie ''auth_access_token'' ''tokA'' True (debug (config example_env)) ''lax''
              (access_token_expire_time (config example_env))
              (new_Response (json_dumps (IToken_dict example_env ''tokR'' ''tokA'')) status_ok
                 ''application/json''))))"
    by (rule create_success [OF example_encoder]) simp_all
  also have "\<dots> = (example_scheduled, Returned example_response)"
    by (simp add: add_task_def set_cookie_def new_Response_def status_ok_def example_world_def
          example_scheduled_def example_response_def example_env_def example_config_def
          example_IToken_dict_def)
  finally show ?thesis .
qed

lemma example_update:
  "update_response_cookies example_env 1000 1001 ''42'' 0 example_world =
     (cookies_update 0
        [(''key'', PStr ''auth_refresh_token''), (''value'', PStr ''tokR''),
         (''secure'', PBool True), (''httponly'', PBool (debug (config example_env))),
         (''samesite'', PStr ''lax''),
         (''expires'', PDatetime (1001 + get_refresh_expires_time (config example_env))),
         (''max_age'', PInt (refresh_token_expire_time (config example_env)))]
        (cookies_update 0
           [(''key'', PStr ''auth_access_token''), (''value'', PStr ''tokA''),
            (''secure'', PBool True), (''httponly'', PBool (debug (config example_env))),
            (''samesite'', PStr ''lax''),
            (''max_age'', PInt (access_token_expire_time (config example_env))),
            (''expires'', PDatetime (1000 + get_access_expires_time (config example_env)))]
           (add_task (Create_task ''42'' 0 ''tokR'' ''tokA'') example_world)),
      Returned 0)"
  by (rule update_success [OF example_encoder]) simp_all

lemma example_update_cookies:
  "cookies (requests (fst (update_response_cookies example_env 1000 1001 ''42'' 0 example_world)) 0) =
     [''key'' \<mapsto> PStr ''auth_refresh_token'', ''value'' \<mapsto> PStr ''tokR'',
      ''secure'' \<mapsto> PBool True, ''httponly'' \<mapsto> PBool False, ''samesite'' \<mapsto> PStr ''lax'',
      ''max_age'' \<mapsto> PInt 604800, ''expires'' \<mapsto> PDatetime 605801]"
  unfolding example_update
  by (rule ext)
     (simp add: cookies_update_def add_task_def example_world_def example_requests_def
        example_env_def example_config_def)

lemma example_update_pair:
  "update_response_cookies example_env 1000 1001 ''42'' 0 example_world =
     (fst (update_response_cookies example_env 1000 1001 ''42'' 0 example_world), Returned 0)"
  by (simp add: example_update)

lemma example_update_snd:
  "snd (update_response_cookies example_env 1000 1001 ''42'' 0 example_world) = Returned 0"
  by (simp add: example_update)

text \<open>What the call leaves alone: every other request, and every other field of this one.\<close>

lemma update_response_cookies_frame:
  "Request.more (requests (fst (update_response_cookies env now1 now2 user request w)) q) =
     Request.more (requests w q)"
  "q \<noteq> request \<Longrightarrow>
     requests (fst (update_response_cookies env now1 now2 user request w)) q = requests w q"
  by (simp_all add: update_response_cookies_def cookies_update_def add_task_def
        split: option.splits prod.splits)

text \<open>
  The body of a returned response is what the constructor call passes: the status constant,
  the media type, and \<^verbatim>\<open>json.dumps\<close> of the dictionary of the \<^verbatim>\<open>IToken\<close> that the
  module constructs from the refresh token and the access token. Which of the two tokens
  that dictionary holds is decided by the declaration of \<^verbatim>\<open>IToken\<close>, a parameter here.
\<close>

lemma create_response_cookies_body:
  assumes "create_response_cookies env user request w = (w', Returned resp)"
    and "jwt_encoder env (IToEncode_dict env (str_id env user)) = Some (Some a, Some r)"
  shows "status_code resp = 200 \<and> media_type resp = ''application/json''
         \<and> content resp = json_dumps (IToken_dict env r a)"
proof -
  from assms(1) obtain a' r'
    where enc: "jwt_encoder env (IToEncode_dict env (str_id env user)) = Some (Some a', Some r')"
      and ne: "a' \<noteq> []" "r' \<noteq> []"
    by (rule create_returned)
  from enc assms(2) have eq: "a' = a" "r' = r" by simp_all
  from assms(1) create_success [OF enc ne, of request w]
  have "resp = set_cookie ''auth_refresh_token'' r True (debug (config env)) ''lax''
           (refresh_token_expire_time (config env))
           (set_cookie ''auth_access_token'' a True (debug (config env)) ''lax''
              (access_token_expire_time (config env))
              (new_Response (json_dumps (IToken_dict env r a)) status_ok ''application/json''))"
    by (simp add: eq)
  then show ?thesis by (simp add: body_created status_ok_def)
qed

section \<open>Claims\<close>

subsection \<open>C1: attributes of the cookies\<close>

text \<open>
  C1 as stated: both cookies are \<^verbatim>\<open>HttpOnly\<close> whatever the debug flag is. The module
  passes \<^verbatim>\<open>httponly=config.debug\<close>: outside debug mode the two cookies that
  \<^verbatim>\<open>create_response_cookies\<close> sets are not \<^verbatim>\<open>HttpOnly\<close>.
\<close>

theorem create_response_cookies_httponly_counterexample:
  "snd (create_response_cookies example_env ''42'' 0 example_world) = Returned example_response
   \<and> debug (config example_env) = False
   \<and> map c_httponly (set_cookies example_response) = [False, False]"
  using example_create
  by (simp add: example_response_def example_env_def example_config_def)

text \<open>
  C1, amended: on every call of \<^verbatim>\<open>create_response_cookies\<close> that returns a
  response, the response carries the cookie \<^verbatim>\<open>auth_access_token\<close> and then the cookie
  \<^verbatim>\<open>auth_refresh_token\<close>, both with \<^verbatim>\<open>Secure\<close> set and \<^verbatim>\<open>SameSite\<close> equal to
  \<^verbatim>\<open>lax\<close>, both with \<^verbatim>\<open>HttpOnly\<close> equal to the debug flag of the configuration, and
  with \<^verbatim>\<open>max_age\<close> equal to the configured access lifetime for the first and to the
  configured refresh lifetime for the second.
\<close>

theorem create_response_cookies_attributes:
  assumes "create_response_cookies env user request w = (w', Returned resp)"
  shows "map (\<lambda>c. (c_key c, c_secure c, c_samesite c, c_httponly c, c_max_age c))
           (set_cookies resp) =
         [(''auth_access_token'', True, ''lax'', debug (config env),
           Some (access_token_expire_time (config env))),
          (''auth_refresh_token'', True, ''lax'', debug (config env),
           Some (refresh_token_expire_time (config env)))]"
proof -
  from assms obtain a r
    where enc: "jwt_encoder env (IToEncode_dict env (str_id env user)) = Some (Some a, Some r)"
      and ne: "a \<noteq> []" "r \<noteq> []"
    by (rule create_returned)
  from assms create_success [OF enc ne, of request w]
  have "set_cookies resp =
      set_cookies (set_cookie ''auth_refresh_token'' r True (debug (config env)) ''lax''
           (refresh_token_expire_time (config env))
           (set_cookie ''auth_access_token'' a True (debug (config env)) ''lax''
              (access_token_expire_time (config env))
              (new_Response (json_dumps (IToken_dict env r a)) status_ok ''application/json'')))"
    by simp
  then show ?thesis by (simp only: set_cookies_created) simp
qed

theorem create_response_cookies_attributes_witness:
  "create_response_cookies example_env ''42'' 0 example_world =
     (example_scheduled, Returned example_response)
   \<and> map (\<lambda>c. (c_key c, c_secure c, c_samesite c, c_httponly c, c_max_age c))
       (set_cookies example_response) =
     [(''auth_access_token'', True, ''lax'', False, Some 900),
      (''auth_refresh_token'', True, ''lax'', False, Some 604800)]"
  using create_response_cookies_attributes [OF example_create] example_create
  by (simp add: example_env_def example_config_def)

subsection \<open>C2: soft failure\<close>

text \<open>
  C2: whenever the signer hands back a pair in which the access token or the refresh token
  is empty or unset, \<^verbatim>\<open>create_response_cookies\<close> returns \<^verbatim>\<open>False\<close>: it neither raises
  nor returns a response.
\<close>

theorem create_response_cookies_soft_failure:
  assumes "jwt_encoder env (IToEncode_dict env (str_id env user)) = Some (access_token, refresh_token)"
    and "access_token = None \<or> access_token = Some [] \<or> refresh_token = None \<or> refresh_token = Some []"
  shows "snd (create_response_cookies env user request w) = Returned_False"
  by (simp add: failure_paths(1) [OF assms])

theorem create_response_cookies_soft_failure_witness:
  "jwt_encoder failing_env (IToEncode_dict failing_env (str_id failing_env ''42'')) =
     Some (Some ''tokA'', Some [])
   \<and> snd (create_response_cookies failing_env ''42'' 0 example_world) = Returned_False"
  using failing_encoder [of "''42''"]
  by (simp add: create_response_cookies_soft_failure [OF failing_encoder])

subsection \<open>C4: the two cookies\<close>

text \<open>
  C4: on every call of \<^verbatim>\<open>create_response_cookies\<close> that returns a response, the response
  carries exactly two cookies: \<^verbatim>\<open>auth_access_token\<close> with the access token just signed and
  \<^verbatim>\<open>auth_refresh_token\<close> with the refresh token just signed, neither of them empty.
\<close>

theorem create_response_cookies_two_cookies:
  assumes "create_response_cookies env user request w = (w', Returned resp)"
    and "jwt_encoder env (IToEncode_dict env (str_id env user)) = Some (Some a, Some r)"
  shows "length (set_cookies resp) = 2
         \<and> map (\<lambda>c. (c_key c, c_value c)) (set_cookies resp) =
             [(''auth_access_token'', a), (''auth_refresh_token'', r)]
         \<and> a \<noteq> [] \<and> r \<noteq> []"
proof -
  from assms(1) obtain a' r'
    where enc: "jwt_encoder env (IToEncode_dict env (str_id env user)) = Some (Some a', Some r')"
      and ne: "a' \<noteq> []" "r' \<noteq> []"
    by (rule create_returned)
  from enc assms(2) have eq: "a' = a" "r' = r" by simp_all
  from assms(1) create_success [OF enc ne, of request w]
  have "set_cookies resp =
      set_cookies (set_cookie ''auth_refresh_token'' r True (debug (config env)) ''lax''
           (refresh_token_expire_time (config env))
           (set_cookie ''auth_access_token'' a True (debug (config env)) ''lax''
              (access_token_expire_time (config env))
              (new_Response (json_dumps (IToken_dict env r a)) status_ok ''application/json'')))"
    by (simp add: eq)
  then show ?thesis using ne by (simp add: set_cookies_created eq)
qed

theorem create_response_cookies_two_cookies_witness:
  "create_response_cookies example_env ''42'' 0 example_world =
     (example_scheduled, Returned example_response)
   \<and> jwt_encoder example_env (IToEncode_dict example_env (str_id example_env ''42'')) =
       Some (Some ''tokA'', Some ''tokR'')
   \<and> length (set_cookies example_response) = 2
   \<and> map (\<lambda>c. (c_key c, c_value c)) (set_cookies example_response) =
       [(''auth_access_token'', ''tokA''), (''auth_refresh_token'', ''tokR'')]"
  using create_response_cookies_two_cookies [OF example_create example_encoder]
    example_create example_encoder [of "''42''"]
  by simp

subsection \<open>C5: the persistence task\<close>

text \<open>
  C5: on every successful call of \<^verbatim>\<open>create_response_cookies\<close> or of
  \<^verbatim>\<open>update_response_cookies\<close>, the queue of background tasks grows by exactly one task:
  \<^verbatim>\<open>auth_token_repo.create\<close> with the user, the request, and the refresh token and the
  access token signed in this call.
\<close>

theorem create_task_scheduled_once:
  assumes "jwt_encoder env (IToEncode_dict env (str_id env user)) = Some (Some a, Some r)"
  shows "(create_response_cookies env user request w = (wc, Returned resp) \<longrightarrow>
            tasks wc = tasks w @ [Create_task user request r a])
         \<and> (update_response_cookies env now1 now2 user request w = (wu, Returned q) \<longrightarrow>
            tasks wu = tasks w @ [Create_task user request r a])"
proof (intro conjI impI)
  assume c: "create_response_cookies env user request w = (wc, Returned resp)"
  then obtain a' r'
    where enc: "jwt_encoder env (IToEncode_dict env (str_id env user)) = Some (Some a', Some r')"
      and ne: "a' \<noteq> []" "r' \<noteq> []"
    by (rule create_returned)
  from enc assms have eq: "a' = a" "r' = r" by simp_all
  from c create_success [OF enc ne, of request w]
  have "wc = add_task (Create_task user request r a) w"
    by (simp add: eq)
  then show "tasks wc = tasks w @ [Create_task user request r a]"
    by (simp add: tasks_add_task)
next
  assume u: "update_response_cookies env now1 now2 user request w = (wu, Returned q)"
  then obtain a' r'
    where enc: "jwt_encoder env (IToEncode_dict env (str_id env user)) = Some (Some a', Some r')"
      and ne: "a' \<noteq> []" "r' \<noteq> []"
    by (rule update_returned)
  from enc assms have eq: "a' = a" "r' = r" by simp_all
  from u update_success [OF enc ne, of now1 now2 request w]
  have "tasks wu = tasks (add_task (Create_task user request r a) w)"
    by (auto simp: eq tasks_cookies_update)
  then show "tasks wu = tasks w @ [Create_task user request r a]"
    by (simp add: tasks_add_task)
qed

theorem create_task_scheduled_once_witness:
  "jwt_encoder example_env (IToEncode_dict example_env (str_id example_env ''42'')) =
     Some (Some ''tokA'', Some ''tokR'')
   \<and> create_response_cookies example_env ''42'' 0 example_world =
       (example_scheduled, Returned example_response)
   \<and> snd (update_response_cookies example_env 1000 1001 ''42'' 0 example_world) = Returned 0
   \<and> tasks example_scheduled = tasks example_world @ [Create_task ''42'' 0 ''tokR'' ''tokA'']
   \<and> tasks (fst (update_response_cookies example_env 1000 1001 ''42'' 0 example_world)) =
       tasks example_world @ [Create_task ''42'' 0 ''tokR'' ''tokA'']"
proof -
  note sched = create_task_scheduled_once [OF example_encoder, of "''42''" 0 example_world
      example_scheduled example_response 1000 1001
      "fst (update_response_cookies example_env 1000 1001 ''42'' 0 example_world)" 0]
  from sched example_create
  have "tasks example_scheduled = tasks example_world @ [Create_task ''42'' 0 ''tokR'' ''tokA'']"
    by (rule conjunct1 [THEN mp])
  moreover from sched example_update_pair
  have "tasks (fst (update_response_cookies example_env 1000 1001 ''42'' 0 example_world)) =
      tasks example_world @ [Create_task ''42'' 0 ''tokR'' ''tokA'']"
    by (rule conjunct2 [THEN mp])
  ultimately show ?thesis
    using example_create example_encoder [of "''42''"] example_update_snd by simp
qed

subsection \<open>C6: no response without a scheduled write\<close>

text \<open>
  C6: whenever \<^verbatim>\<open>create_response_cookies\<close> returns a response, the signer has
  generated the token pair, both tokens non-empty; the persistence task has been queued by
  then, for this very pair; and the cookies of the response carry this pair.
\<close>

theorem create_response_cookies_scheduled_before_return:
  assumes "create_response_cookies env user request w = (w', Returned resp)"
  shows "\<exists>a r. jwt_encoder env (IToEncode_dict env (str_id env user)) = Some (Some a, Some r)
           \<and> a \<noteq> [] \<and> r \<noteq> []
           \<and> tasks w' = tasks w @ [Create_task user request r a]
           \<and> map (\<lambda>c. (c_key c, c_value c)) (set_cookies resp) =
               [(''auth_access_token'', a), (''auth_refresh_token'', r)]"
proof -
  from assms obtain a r
    where enc: "jwt_encoder env (IToEncode_dict env (str_id env user)) = Some (Some a, Some r)"
      and ne: "a \<noteq> []" "r \<noteq> []"
    by (rule create_returned)
  from assms create_success [OF enc ne, of request w]
  have "w' = add_task (Create_task user request r a) w"
    and "set_cookies resp =
      set_cookies (set_cookie ''auth_refresh_token'' r True (debug (config env)) ''lax''
           (refresh_token_expire_time (config env))
           (set_cookie ''auth_access_token'' a True (debug (config env)) ''lax''
              (access_token_expire_time (config env))
              (new_Response (json_dumps (IToken_dict env r a)) status_ok ''application/json'')))"
    by simp_all
  then have "tasks w' = tasks w @ [Create_task user request r a]"
    and "map (\<lambda>c. (c_key c, c_value c)) (set_cookies resp) =
          [(''auth_access_token'', a), (''auth_refresh_token'', r)]"
    by (simp_all add: tasks_add_task set_cookies_created)
  with enc ne have "jwt_encoder env (IToEncode_dict env (str_id env user)) = Some (Some a, Some r)
      \<and> a \<noteq> [] \<and> r \<noteq> []
      \<and> tasks w' = tasks w @ [Create_task user request r a]
      \<and> map (\<lambda>c. (c_key c, c_value c)) (set_cookies resp) =
          [(''auth_access_token'', a), (''auth_refresh_token'', r)]"
    by simp
  then show ?thesis by (intro exI)
qed

theorem create_response_cookies_scheduled_before_return_witness:
  "create_response_cookies example_env ''42'' 0 example_world =
     (example_scheduled, Returned example_response)
   \<and> (\<exists>a r. jwt_encoder example_env (IToEncode_dict example_env (str_id example_env ''42'')) =
            Some (Some a, Some r)
          \<and> a \<noteq> [] \<and> r \<noteq> []
          \<and> tasks example_scheduled = tasks example_world @ [Create_task ''42'' 0 r a]
          \<and> map (\<lambda>c. (c_key c, c_value c)) (set_cookies example_response) =
              [(''auth_access_token'', a), (''auth_refresh_token'', r)])"
  using create_response_cookies_scheduled_before_return [OF example_create] example_create
  by (intro conjI)

subsection \<open>C7: the cookie mapping after an update\<close>

text \<open>
  C7, at the example: after a successful \<^verbatim>\<open>update_response_cookies\<close> on a request without
  cookies, the cookie mapping of the request has the seven keys \<^verbatim>\<open>key\<close>, \<^verbatim>\<open>value\<close>,
  \<^verbatim>\<open>secure\<close>, \<^verbatim>\<open>httponly\<close>, \<^verbatim>\<open>samesite\<close>, \<^verbatim>\<open>max_age\<close> and \<^verbatim>\<open>expires\<close>, holding
  the keyword arguments of the second \<^verbatim>\<open>update\<close> call; it has no entry named
  \<^verbatim>\<open>auth_access_token\<close> and none named \<^verbatim>\<open>auth_refresh_token\<close>.
\<close>

theorem update_response_cookies_jar_example:
  "snd (update_response_cookies example_env 1000 1001 ''42'' 0 example_world) = Returned 0
   \<and> dom (cookies (requests (fst (update_response_cookies example_env 1000 1001 ''42'' 0
        example_world)) 0)) =
       {''key'', ''value'', ''secure'', ''httponly'', ''samesite'', ''max_age'', ''expires''}
   \<and> cookies (requests (fst (update_response_cookies example_env 1000 1001 ''42'' 0
        example_world)) 0) ''key'' = Some (PStr ''auth_refresh_token'')
   \<and> cookies (requests (fst (update_response_cookies example_env 1000 1001 ''42'' 0
        example_world)) 0) ''value'' = Some (PStr ''tokR'')
   \<and> cookies (requests (fst (update_response_cookies example_env 1000 1001 ''42'' 0
        example_world)) 0) ''auth_access_token'' = None
   \<and> cookies (requests (fst (update_response_cookies example_env 1000 1001 ''42'' 0
        example_world)) 0) ''auth_refresh_token'' = None"
proof -
  have "dom [''key'' \<mapsto> PStr ''auth_refresh_token'', ''value'' \<mapsto> PStr ''tokR'',
      ''secure'' \<mapsto> PBool True, ''httponly'' \<mapsto> PBool False, ''samesite'' \<mapsto> PStr ''lax'',
      ''max_age'' \<mapsto> PInt 604800, ''expires'' \<mapsto> PDatetime 605801] =
     {''key'', ''value'', ''secure'', ''httponly'', ''samesite'', ''max_age'', ''expires''}"
    by (simp add: insert_commute)
  then show ?thesis
    by (simp add: example_update_snd example_update_cookies)
qed

subsection \<open>C8: expiry under the two mechanisms\<close>

text \<open>
  C8, at the example: after a successful \<^verbatim>\<open>update_response_cookies\<close> the entries
  \<^verbatim>\<open>max_age\<close> and \<^verbatim>\<open>expires\<close> of the cookie mapping are those of the refresh token (the
  refresh lifetime, and the second clock reading plus the refresh \<^verbatim>\<open>timedelta\<close>); the
  access lifetime of 900 seconds, written by the first \<^verbatim>\<open>update\<close> call, is no longer
  among the values of the mapping.
\<close>

theorem update_response_cookies_expiry_example:
  "map (cookies (requests (fst (update_response_cookies example_env 1000 1001 ''42'' 0
          example_world)) 0)) [''max_age'', ''expires''] =
     [Some (PInt 604800), Some (PDatetime (1001 + 604800))]
   \<and> ran (cookies (requests (fst (update_response_cookies example_env 1000 1001 ''42'' 0
          example_world)) 0)) =
       {PStr ''auth_refresh_token'', PStr ''tokR'', PBool True, PBool False, PStr ''lax'',
        PInt 604800, PDatetime 605801}
   \<and> access_token_expire_time (config example_env) = 900"
proof -
  have "ran [''key'' \<mapsto> PStr ''auth_refresh_token'', ''value'' \<mapsto> PStr ''tokR'',
      ''secure'' \<mapsto> PBool True, ''httponly'' \<mapsto> PBool False, ''samesite'' \<mapsto> PStr ''lax'',
      ''max_age'' \<mapsto> PInt 604800, ''expires'' \<mapsto> PDatetime 605801] =
     {PStr ''auth_refresh_token'', PStr ''tokR'', PBool True, PBool False, PStr ''lax'',
        PInt 604800, PDatetime 605801}"
    by (simp add: insert_commute)
  moreover have "access_token_expire_time (config example_env) = 900"
    by (simp add: example_env_def example_config_def)
  ultimately show ?thesis
    by (simp add: example_update_cookies)
qed

subsection \<open>C9: the page loader\<close>

text \<open>
  C9: the object that \<^verbatim>\<open>load\<close> returns has the single key \<^verbatim>\<open>addressList\<close>, and its value
  is what \<^verbatim>\<open>get_addressList\<close> yields on the \<^verbatim>\<open>fetch\<close> of the event, as it is.
\<close>

theorem load_addressList:
  "dom (load get_addressList event) = {''addressList''}
   \<and> load get_addressList event ''addressList'' = Some (get_addressList (fetch event))"
  by (simp add: load_def)

subsection \<open>C10: the failure path has no effect\<close>

text \<open>
  C10: whenever the signer hands back a pair in which the access token or the refresh token
  is empty or unset, both functions return \<^verbatim>\<open>False\<close> and leave everything as it was: no
  task is queued, and no request is changed.
\<close>

theorem failure_path_no_effects:
  assumes "jwt_encoder env (IToEncode_dict env (str_id env user)) = Some (access_token, refresh_token)"
    and "access_token = None \<or> access_token = Some [] \<or> refresh_token = None \<or> refresh_token = Some []"
  shows "create_response_cookies env user request w = (w, Returned_False)
         \<and> update_response_cookies env now1 now2 user request w = (w, Returned_False)"
  by (simp add: failure_paths [OF assms])

theorem failure_path_no_effects_witness:
  "jwt_encoder failing_env (IToEncode_dict failing_env (str_id failing_env ''42'')) =
     Some (Some ''tokA'', Some [])
   \<and> create_response_cookies failing_env ''42'' 0 example_world = (example_world, Returned_False)
   \<and> update_response_cookies failing_env 1000 1001 ''42'' 0 example_world =
       (example_world, Returned_False)"
  using failing_encoder [of "''42''"]
  by (simp add: failure_path_no_effects [OF failing_encoder])

end
